theory Spec2Isabelle
  imports Complex_Main
begin

section \<open>The shared state of the G-code post processor (State.ts)\<close>

text \<open>
  \<^verbatim>\<open>State.ts\<close> declares two classes, \<^verbatim>\<open>BookmarkedLine\<close> and \<^verbatim>\<open>State\<close>.
  Four types are imported from modules that are not part of the development
  (\<^verbatim>\<open>BookmarkKey\<close>, \<^verbatim>\<open>CommonGCodeCommand\<close>, \<^verbatim>\<open>MutableGCodeInfo\<close> and the type of the
  warning callback); they are type parameters \<open>'key\<close>, \<open>'cmd\<close>, \<open>'info\<close>, \<open>'warn\<close> here.

  A JavaScript \<^verbatim>\<open>number\<close> is an IEEE double. The counters hold integers (exact in a
  double below \<open>2 ^ 53\<close>) and are of type \<open>int\<close>; the X bounds are of type \<open>real\<close>,
  which contains every finite double and on which comparison, \<open>min\<close> and \<open>max\<close> are
  those of the doubles.
\<close>

subsection \<open>Data\<close>

record 'key BookmarkedLine =
  line :: string
  bookmark :: 'key

text \<open>
  The field \<^verbatim>\<open>_cmd?: CommonGCodeCommand | null\<close> has three kinds of value:
  \<^verbatim>\<open>undefined\<close>, \<^verbatim>\<open>null\<close> and a command.
\<close>

datatype 'cmd cmd_slot = Undefined | Null | Cmd 'cmd

text \<open>
  A \<^verbatim>\<open>Map<string, string>\<close> is the list of its entries in insertion order (its keys are
  pairwise distinct); a plain object is the list of its own properties in the order in
  which \<^verbatim>\<open>Object.keys\<close>, \<^verbatim>\<open>Object.entries\<close>, \<^verbatim>\<open>for-in\<close> and \<^verbatim>\<open>JSON.stringify\<close> visit them.
\<close>

type_synonym js_map = "(string \<times> string) list"
type_synonym js_object = "(string \<times> string) list"

text \<open>
  The field \<open>iter_cmd\<close> is \<^verbatim>\<open>_cmd\<close> and \<open>gcodeInfo_priv\<close> is the private \<^verbatim>\<open>#gcodeInfo\<close>
  (neither is an Isabelle identifier). An optional field (\<^verbatim>\<open>?\<close>) is an \<open>option\<close>,
  \<open>None\<close> being \<^verbatim>\<open>undefined\<close>.
\<close>

record ('key, 'cmd, 'info, 'warn) State =
  kPrinterHasIdex :: bool
  kQuickInpsectionOnly :: bool
  kAllowUnsupportedSlicerVersions :: bool
  onWarning :: "'warn option"
  currentLineNumber :: int
  firstLine :: "'key BookmarkedLine option"
  startPrintLine :: "'key BookmarkedLine option"
  onLayerChange2Line :: "'key BookmarkedLine option"
  extruderTempLines :: "'key BookmarkedLine list option"
  extruderTemps :: "string list option"
  toolChangeCount :: int
  firstMoveX :: "string option"
  firstMoveY :: "string option"
  minX :: real
  maxX :: real
  hasPurgeTower :: "bool option"
  configSection :: "js_map option"
  processingHasBeenFinalized :: bool
  usedTools :: "string list"
  iter_cmd :: "'cmd cmd_slot"
  gcodeInfo_priv :: "'info option"

datatype error = InternalError string

subsection \<open>The constants of \<^verbatim>\<open>Number\<close>\<close>

text \<open>
  \<^verbatim>\<open>Number.MAX_VALUE\<close> is the largest finite double, \<open>(2 ^ 53 - 1) * 2 ^ 971\<close>
  (about \<^verbatim>\<open>1.797e308\<close>). \<^verbatim>\<open>Number.MIN_VALUE\<close> is the smallest positive double,
  \<open>2 ^ -1074\<close> (about \<^verbatim>\<open>5e-324\<close>): it is not the most negative number.
\<close>

definition Number_MAX_VALUE :: real where
  "Number_MAX_VALUE = (2 ^ 53 - 1) * 2 ^ 971"

definition Number_MIN_VALUE :: real where
  "Number_MIN_VALUE = 1 / 2 ^ 1074"

subsection \<open>Construction and the methods of \<^verbatim>\<open>State\<close>\<close>

text \<open>The constructor takes the run configuration; the field initialisers do the rest.\<close>

definition State_new ::
  "bool \<Rightarrow> bool \<Rightarrow> bool \<Rightarrow> 'warn option \<Rightarrow> ('key, 'cmd, 'info, 'warn) State" where
  "State_new printerHasIdex quickInspectionOnly allowUnsupportedSlicerVersions warn =
     \<lparr> kPrinterHasIdex = printerHasIdex,
       kQuickInpsectionOnly = quickInspectionOnly,
       kAllowUnsupportedSlicerVersions = allowUnsupportedSlicerVersions,
       onWarning = warn,
       currentLineNumber = - 1,
       firstLine = None,
       startPrintLine = None,
       onLayerChange2Line = None,
       extruderTempLines = None,
       extruderTemps = None,
       toolChangeCount = 0,
       firstMoveX = None,
       firstMoveY = None,
       minX = Number_MAX_VALUE,
       maxX = Number_MIN_VALUE,
       hasPurgeTower = None,
       configSection = None,
       processingHasBeenFinalized = False,
       usedTools = [],
       iter_cmd = Undefined,
       gcodeInfo_priv = None \<rparr>"

definition resetIterationState ::
  "('key, 'cmd, 'info, 'warn) State \<Rightarrow> ('key, 'cmd, 'info, 'warn) State" where
  "resetIterationState s = s\<lparr>iter_cmd := Undefined\<rparr>"

text \<open>
  The getter \<^verbatim>\<open>gcodeInfo\<close> throws when the private field is falsy; a
  \<^verbatim>\<open>MutableGCodeInfo\<close> is an object, so the field is falsy exactly when it is
  \<^verbatim>\<open>undefined\<close>.
\<close>

definition get_gcodeInfo :: "('key, 'cmd, 'info, 'warn) State \<Rightarrow> error + 'info" where
  "get_gcodeInfo s =
     (case gcodeInfo_priv s of
        None \<Rightarrow> Inl (InternalError ''gcodeInfo has not been set yet.'')
      | Some v \<Rightarrow> Inr v)"

definition set_gcodeInfo ::
  "'info \<Rightarrow> ('key, 'cmd, 'info, 'warn) State \<Rightarrow> ('key, 'cmd, 'info, 'warn) State" where
  "set_gcodeInfo v s = s\<lparr>gcodeInfo_priv := Some v\<rparr>"

definition gcodeInfoOrUndefined :: "('key, 'cmd, 'info, 'warn) State \<Rightarrow> 'info option" where
  "gcodeInfoOrUndefined s = gcodeInfo_priv s"

text \<open>
  \<^verbatim>\<open>configSectionAsObject\<close> calls \<^verbatim>\<open>Object.fromEntries\<close> on the entries of the map, when
  there is a map. \<^verbatim>\<open>Object.fromEntries\<close> starts from an empty object and performs
  \<^verbatim>\<open>CreateDataProperty\<close> for each entry in turn: an existing key keeps its place and
  takes the new value, a new key is created after the others. The own properties of an
  ordinary object are visited array indices first, in ascending numeric order, then the
  other string keys in the order of their creation. A key is an array index when it is
  the canonical decimal numeral of an integer from \<open>0\<close> to \<open>2 ^ 32 - 2\<close>.
\<close>

definition isDigit :: "char \<Rightarrow> bool" where
  "isDigit c = (48 \<le> (of_char c :: nat) \<and> (of_char c :: nat) \<le> 57)"

definition decimalValue :: "string \<Rightarrow> nat" where
  "decimalValue k = foldl (\<lambda>n c. 10 * n + ((of_char c :: nat) - 48)) 0 k"

definition arrayIndex :: "string \<Rightarrow> nat option" where
  "arrayIndex k =
     (if k \<noteq> [] \<and> list_all isDigit k \<and> (k = ''0'' \<or> hd k \<noteq> CHR ''0'') \<and>
         decimalValue k < 2 ^ 32 - 1
      then Some (decimalValue k) else None)"

definition isArrayIndex :: "string \<Rightarrow> bool" where
  "isArrayIndex k = (arrayIndex k \<noteq> None)"

fun CreateDataProperty :: "string \<Rightarrow> string \<Rightarrow> (string \<times> string) list \<Rightarrow> (string \<times> string) list" where
  "CreateDataProperty k v [] = [(k, v)]"
| "CreateDataProperty k v (p # ps) =
     (if fst p = k then (k, v) # ps else p # CreateDataProperty k v ps)"

definition ownPropertyOrder :: "(string \<times> string) list \<Rightarrow> js_object" where
  "ownPropertyOrder ps =
     sort_key (\<lambda>p. decimalValue (fst p)) (filter (\<lambda>p. isArrayIndex (fst p)) ps) @
     filter (\<lambda>p. \<not> isArrayIndex (fst p)) ps"

definition Object_fromEntries :: "(string \<times> string) list \<Rightarrow> js_object" where
  "Object_fromEntries es = ownPropertyOrder (fold (\<lambda>(k, v). CreateDataProperty k v) es [])"

text \<open>
  The iterator that \<^verbatim>\<open>entries()\<close> returns is an object, hence truthy, so the conditional
  tests only whether \<^verbatim>\<open>configSection\<close> is \<^verbatim>\<open>undefined\<close>.
\<close>

definition configSectionAsObject :: "('key, 'cmd, 'info, 'warn) State \<Rightarrow> js_object option" where
  "configSectionAsObject s =
     (case configSection s of
        None \<Rightarrow> None
      | Some m \<Rightarrow> Some (Object_fromEntries m))"

section \<open>The collaborators of \<^verbatim>\<open>State\<close>\<close>

subsection \<open>The per-line driver\<close>

text \<open>
  Modelled from the spec: the driver that processes one input line (it belongs to the
  processor class, which is not among the sources). For each input line the iteration
  state is reset, \<^verbatim>\<open>currentLineNumber\<close> increases by exactly one, and the line is
  classified into a command: the slot \<^verbatim>\<open>_cmd\<close> holds the classified command for this
  line, if any, and is otherwise left absent. The classifier is external and is the
  parameter \<open>classify\<close>.
\<close>

definition processLine ::
  "(string \<Rightarrow> 'cmd option) \<Rightarrow> string \<Rightarrow>
   ('key, 'cmd, 'info, 'warn) State \<Rightarrow> ('key, 'cmd, 'info, 'warn) State" where
  "processLine classify l s =
     (let s1 = resetIterationState s;
          s2 = s1\<lparr>currentLineNumber := currentLineNumber s1 + 1\<rparr>
      in case classify l of
           None \<Rightarrow> s2
         | Some c \<Rightarrow> s2\<lparr>iter_cmd := Cmd c\<rparr>)"

fun processLines ::
  "(string \<Rightarrow> 'cmd option) \<Rightarrow> string list \<Rightarrow>
   ('key, 'cmd, 'info, 'warn) State \<Rightarrow> ('key, 'cmd, 'info, 'warn) State" where
  "processLines classify [] s = s"
| "processLines classify (l # ls) s = processLines classify ls (processLine classify l s)"

subsection \<open>The bounding box in X\<close>

text \<open>
  Modelled from the spec: the action that observes the X coordinate of a move (it is
  not among the sources). \<^verbatim>\<open>minX\<close> and \<^verbatim>\<open>maxX\<close> converge to the bounding interval of
  the observed values, so each observed value lowers \<^verbatim>\<open>minX\<close> to it when it is smaller and
  raises \<^verbatim>\<open>maxX\<close> to it when it is larger.
\<close>

definition observeX ::
  "real \<Rightarrow> ('key, 'cmd, 'info, 'warn) State \<Rightarrow> ('key, 'cmd, 'info, 'warn) State" where
  "observeX x s = s\<lparr>minX := min (minX s) x, maxX := max (maxX s) x\<rparr>"

fun observeMoves ::
  "real list \<Rightarrow> ('key, 'cmd, 'info, 'warn) State \<Rightarrow> ('key, 'cmd, 'info, 'warn) State" where
  "observeMoves [] s = s"
| "observeMoves (x # xs) s = observeMoves xs (observeX x s)"

subsection \<open>The used tools\<close>

text \<open>
  Modelled from the spec: the action that handles a tool-change command (it is not
  among the sources). \<^verbatim>\<open>usedTools\<close> is append-only with a set-like dedup: a tool that is
  not yet in the list is appended, a tool that is already there changes nothing.
\<close>

definition recordUsedTool ::
  "string \<Rightarrow> ('key, 'cmd, 'info, 'warn) State \<Rightarrow> ('key, 'cmd, 'info, 'warn) State" where
  "recordUsedTool t s =
     (if t \<in> set (usedTools s) then s else s\<lparr>usedTools := usedTools s @ [t]\<rparr>)"

fun recordToolChanges ::
  "string list \<Rightarrow> ('key, 'cmd, 'info, 'warn) State \<Rightarrow> ('key, 'cmd, 'info, 'warn) State" where
  "recordToolChanges [] s = s"
| "recordToolChanges (t # ts) s = recordToolChanges ts (recordUsedTool t s)"

text \<open>
  What the specification asks of the result, in its own words: each distinct tool
  once, ordered by first occurrence.
\<close>

fun firstOccurrences :: "'a list \<Rightarrow> 'a list" where
  "firstOccurrences [] = []"
| "firstOccurrences (x # xs) = x # filter (\<lambda>y. y \<noteq> x) (firstOccurrences xs)"

subsection \<open>The bookmark registry\<close>

text \<open>
  Modelled from the spec: the Bookmark Registry (the module \<^verbatim>\<open>Bookmark\<close> is not among the
  sources; \<^verbatim>\<open>State.ts\<close> imports only the type of its keys). A key is an index into an
  append-only slot table owned by the registry; a slot holds the current text of the
  line and whether it has been resolved. \<^verbatim>\<open>resolve\<close> fails with "state already
  finalized" once the owning state is finalized, with "bookmark unknown" for a key that
  this run did not issue, and with "bookmark already resolved" on a second resolution;
  otherwise it rewrites the text and marks the slot.
\<close>

record slot =
  slot_text :: string
  slot_resolved :: bool

type_synonym registry = "slot list"

datatype bookmark_error = StateAlreadyFinalized | BookmarkUnknown | BookmarkAlreadyResolved

definition createBookmark :: "string \<Rightarrow> registry \<Rightarrow> registry \<times> nat BookmarkedLine" where
  "createBookmark lineText reg =
     (reg @ [\<lparr>slot_text = lineText, slot_resolved = False\<rparr>],
      \<lparr>line = lineText, bookmark = length reg\<rparr>)"

definition resolve ::
  "('key, 'cmd, 'info, 'warn) State \<Rightarrow> nat \<Rightarrow> string \<Rightarrow> registry \<Rightarrow> bookmark_error + registry" where
  "resolve s key newText reg =
     (if processingHasBeenFinalized s then Inl StateAlreadyFinalized
      else if length reg \<le> key then Inl BookmarkUnknown
      else if slot_resolved (reg ! key) then Inl BookmarkAlreadyResolved
      else Inr (reg[key := \<lparr>slot_text = newText, slot_resolved = True\<rparr>]))"

section \<open>Concrete inputs\<close>

text \<open>
  A state as the constructor leaves it, a state in which a line has been classified and
  processing has been finalized, and a classifier that knows no comment lines.
\<close>

definition fresh_example :: "(nat, string, nat, nat) State" where
  "fresh_example = State_new False False False None"

definition finalized_example :: "(nat, string, nat, nat) State" where
  "finalized_example = fresh_example\<lparr>processingHasBeenFinalized := True, iter_cmd := Cmd ''T1''\<rparr>"

definition config_example :: "(nat, string, nat, nat) State" where
  "config_example = fresh_example\<lparr>configSection := Some [(''b'', ''x''), (''a'', ''y'')]\<rparr>"

definition empty_config_example :: "(nat, string, nat, nat) State" where
  "empty_config_example = fresh_example\<lparr>configSection := Some []\<rparr>"

definition numeric_key_example :: "(nat, string, nat, nat) State" where
  "numeric_key_example = fresh_example\<lparr>configSection := Some [(''b'', ''x''), (''1'', ''y'')]\<rparr>"

definition mixed_key_example :: "(nat, string, nat, nat) State" where
  "mixed_key_example =
     fresh_example\<lparr>configSection :=
       Some [(''b'', ''x''), (''10'', ''y''), (''9'', ''z''), (''a'', ''w'')]\<rparr>"

definition registry_example :: registry where
  "registry_example = fst (createBookmark ''G28'' [])"

definition classify_example :: "string \<Rightarrow> string option" where
  "classify_example l = (if l = [] \<or> hd l = CHR '';'' then None else Some l)"

section \<open>Properties\<close>

subsection \<open>The line counter\<close>

lemma currentLineNumber_processLine:
  "currentLineNumber (processLine classify l s) = currentLineNumber s + 1"
  by (simp add: processLine_def resetIterationState_def Let_def split: option.splits)

lemma currentLineNumber_processLines:
  "currentLineNumber (processLines classify ls s) = currentLineNumber s + int (length ls)"
  by (induction ls arbitrary: s) (simp_all add: currentLineNumber_processLine)

text \<open>
  C1, as stated: after line \<open>i\<close> (counted from one) the counter is \<open>i\<close>. The counter
  starts at \<open>-1\<close>, so after the first line it is \<open>0\<close>, not \<open>1\<close>.
\<close>

theorem currentLineNumber_after_first_line:
  "currentLineNumber (processLines classify_example [''G1 X5''] fresh_example) = 0 \<and>
   currentLineNumber (processLines classify_example [''G1 X5''] fresh_example) \<noteq> 1"
  by (simp add: currentLineNumber_processLine fresh_example_def State_new_def)

text \<open>
  C1, amended: the counter starts at the sentinel \<open>-1\<close>, each processed line adds exactly
  one to it, and after line \<open>i\<close> (counted from one) of any sequence of lines it is
  \<open>i - 1\<close>, the zero-based index of that line.
\<close>

theorem currentLineNumber_zero_based:
  "(let s0 = State_new idex quick allow warn :: ('key, 'cmd, 'info, 'warn) State in
      currentLineNumber s0 = - 1 \<and>
      currentLineNumber (processLines classify ls s0) = int (length ls) - 1) \<and>
   currentLineNumber (processLine classify l s) = currentLineNumber s + 1 \<and>
   currentLineNumber (processLines classify ls s) = currentLineNumber s + int (length ls)"
  by (simp add: currentLineNumber_processLine currentLineNumber_processLines State_new_def)

subsection \<open>The bounding box in X\<close>

text \<open>
  C2. The sentinels are meant to be replaced by the first observed X. The run of the
  specification (\<open>5, -3, 10\<close>) ends with \<open>minX = -3\<close> and \<open>maxX = 10\<close>, and a run without
  moves keeps both sentinels. But \<^verbatim>\<open>Number.MIN_VALUE\<close> is positive, so a run whose only
  move has \<open>X = -3\<close> ends with \<open>minX = -3\<close> and \<open>maxX\<close> still at the sentinel: \<open>maxX\<close> is
  not an observed value there.
\<close>

theorem maxX_sentinel_survives:
  "(let s0 = State_new idex quick allow warn :: ('key, 'cmd, 'info, 'warn) State in
      0 < Number_MIN_VALUE \<and>
      minX (observeMoves [] s0) = Number_MAX_VALUE \<and>
      maxX (observeMoves [] s0) = Number_MIN_VALUE \<and>
      minX (observeMoves [5, - 3, 10] s0) = - 3 \<and>
      maxX (observeMoves [5, - 3, 10] s0) = 10 \<and>
      minX (observeMoves [- 3] s0) = - 3 \<and>
      maxX (observeMoves [- 3] s0) = Number_MIN_VALUE \<and>
      maxX (observeMoves [- 3] s0) \<noteq> - 3)"
  by (simp add: observeX_def State_new_def Number_MIN_VALUE_def Number_MAX_VALUE_def)

subsection \<open>Finalization\<close>

text \<open>
  C3, as stated: once \<^verbatim>\<open>processingHasBeenFinalized\<close> is true, every mutation of the
  state fails. In a finalized state \<^verbatim>\<open>resetIterationState\<close> and the setter of
  \<^verbatim>\<open>gcodeInfo\<close> run to completion and change the state.
\<close>

theorem mutation_after_finalization:
  "processingHasBeenFinalized finalized_example \<and>
   iter_cmd finalized_example = Cmd ''T1'' \<and>
   iter_cmd (resetIterationState finalized_example) = Undefined \<and>
   resetIterationState finalized_example \<noteq> finalized_example \<and>
   get_gcodeInfo finalized_example = Inl (InternalError ''gcodeInfo has not been set yet.'') \<and>
   get_gcodeInfo (set_gcodeInfo 7 finalized_example) = Inr 7"
proof -
  have "iter_cmd (resetIterationState finalized_example) \<noteq> iter_cmd finalized_example"
    by (simp add: resetIterationState_def finalized_example_def)
  then have "resetIterationState finalized_example \<noteq> finalized_example"
    by auto
  then show ?thesis
    by (simp add: resetIterationState_def finalized_example_def fresh_example_def
        State_new_def get_gcodeInfo_def set_gcodeInfo_def)
qed

text \<open>
  C3, amended: \<^verbatim>\<open>processingHasBeenFinalized\<close> is false in a new state and no method of
  \<^verbatim>\<open>State\<close> changes it, so once true it stays true (no rollback). \<^verbatim>\<open>State\<close> itself does
  not guard its mutators: in a finalized state \<^verbatim>\<open>resetIterationState\<close> still clears the
  command slot and the setter still attaches the Info Aggregate. Bookmark resolution
  fails with "state already finalized" once the flag is true.
\<close>

theorem processingHasBeenFinalized_kept:
  "processingHasBeenFinalized
     (State_new idex quick allow warn :: ('key, 'cmd, 'info, 'warn) State) = False \<and>
   processingHasBeenFinalized
     (resetIterationState (s :: ('key, 'cmd, 'info, 'warn) State)) =
     processingHasBeenFinalized s \<and>
   processingHasBeenFinalized (set_gcodeInfo v s) = processingHasBeenFinalized s \<and>
   (processingHasBeenFinalized s \<longrightarrow>
      iter_cmd (resetIterationState s) = Undefined \<and>
      get_gcodeInfo (set_gcodeInfo v s) = Inr v \<and>
      resolve s key newText reg = Inl StateAlreadyFinalized)"
  by (simp add: State_new_def resetIterationState_def set_gcodeInfo_def get_gcodeInfo_def
      resolve_def)

theorem processingHasBeenFinalized_kept_witness:
  "processingHasBeenFinalized finalized_example \<and>
   processingHasBeenFinalized (resetIterationState finalized_example) \<and>
   processingHasBeenFinalized (set_gcodeInfo 7 finalized_example) \<and>
   iter_cmd (resetIterationState finalized_example) = Undefined \<and>
   get_gcodeInfo (set_gcodeInfo 7 finalized_example) = Inr 7 \<and>
   resolve finalized_example 0 ''G28 X'' registry_example = Inl StateAlreadyFinalized"
proof -
  have fin: "processingHasBeenFinalized finalized_example"
    by (simp add: finalized_example_def)
  show ?thesis
    using fin processingHasBeenFinalized_kept
      [of False False False None finalized_example 7 0 "''G28 X''" registry_example]
    by simp
qed

subsection \<open>The Info Aggregate\<close>

text \<open>
  C4. While no Info Aggregate is attached, the getter \<^verbatim>\<open>gcodeInfo\<close> fails with an
  \<^verbatim>\<open>InternalError\<close> (it returns no default) and \<^verbatim>\<open>gcodeInfoOrUndefined\<close> returns
  \<^verbatim>\<open>undefined\<close>; after the setter has attached a value, the getter returns that value.
\<close>

theorem gcodeInfo_access:
  "(gcodeInfo_priv s = None \<longrightarrow>
      get_gcodeInfo s = Inl (InternalError ''gcodeInfo has not been set yet.'') \<and>
      gcodeInfoOrUndefined s = None) \<and>
   get_gcodeInfo (set_gcodeInfo v s) = Inr v \<and>
   gcodeInfoOrUndefined (set_gcodeInfo v s) = Some v"
  by (simp add: get_gcodeInfo_def set_gcodeInfo_def gcodeInfoOrUndefined_def)

theorem gcodeInfo_access_witness:
  "gcodeInfo_priv fresh_example = None \<and>
   get_gcodeInfo fresh_example = Inl (InternalError ''gcodeInfo has not been set yet.'') \<and>
   gcodeInfoOrUndefined fresh_example = None \<and>
   get_gcodeInfo (set_gcodeInfo 7 fresh_example) = Inr 7 \<and>
   gcodeInfoOrUndefined (set_gcodeInfo 7 fresh_example) = Some 7"
proof -
  have unset: "gcodeInfo_priv fresh_example = None"
    by (simp add: fresh_example_def State_new_def)
  show ?thesis
    using unset gcodeInfo_access [of fresh_example 7] by simp
qed

subsection \<open>The configuration section as an object\<close>

lemma CreateDataProperty_fresh:
  "k \<notin> fst ` set ps \<Longrightarrow> CreateDataProperty k v ps = ps @ [(k, v)]"
  by (induction ps) auto

lemma fold_CreateDataProperty_distinct:
  "distinct (map fst (acc @ es)) \<Longrightarrow>
   fold (\<lambda>(k, v). CreateDataProperty k v) es acc = acc @ es"
proof (induction es arbitrary: acc)
  case Nil
  then show ?case by simp
next
  case (Cons e es)
  obtain k v where e: "e = (k, v)" by (cases e)
  from Cons.prems e have fresh: "k \<notin> fst ` set acc" by auto
  from Cons.prems e have "distinct (map fst ((acc @ [(k, v)]) @ es))" by auto
  then have "fold (\<lambda>(k, v). CreateDataProperty k v) es (acc @ [(k, v)]) = (acc @ [(k, v)]) @ es"
    by (rule Cons.IH)
  with fresh e show ?case by (simp add: CreateDataProperty_fresh)
qed

lemma set_ownPropertyOrder: "set (ownPropertyOrder ps) = set ps"
  by (auto simp: ownPropertyOrder_def)

lemma distinct_keys_ownPropertyOrder:
  assumes "distinct (map fst ps)"
  shows "distinct (map fst (ownPropertyOrder ps))"
proof -
  from assms have d: "distinct ps" and i: "inj_on fst (set ps)"
    by (simp_all add: distinct_map)
  have "distinct (ownPropertyOrder ps)"
    using d by (auto simp: ownPropertyOrder_def)
  moreover have "inj_on fst (set (ownPropertyOrder ps))"
    using i by (simp add: set_ownPropertyOrder)
  ultimately show ?thesis by (simp add: distinct_map)
qed

lemma others_ownPropertyOrder:
  "filter (\<lambda>p. \<not> isArrayIndex (fst p)) (ownPropertyOrder ps) =
   filter (\<lambda>p. \<not> isArrayIndex (fst p)) ps"
  by (simp add: ownPropertyOrder_def filter_sort)

lemma indices_ownPropertyOrder:
  "filter (\<lambda>p. isArrayIndex (fst p)) (ownPropertyOrder ps) =
   sort_key (\<lambda>p. decimalValue (fst p)) (filter (\<lambda>p. isArrayIndex (fst p)) ps)"
  by (simp add: ownPropertyOrder_def filter_sort)

lemma ownPropertyOrder_no_index:
  "\<forall>p \<in> set ps. \<not> isArrayIndex (fst p) \<Longrightarrow> ownPropertyOrder ps = ps"
  by (simp add: ownPropertyOrder_def filter_empty_conv filter_id_conv)

lemma Object_fromEntries_distinct:
  "distinct (map fst es) \<Longrightarrow> Object_fromEntries es = ownPropertyOrder es"
  using fold_CreateDataProperty_distinct [of "[]" es]
  by (simp add: Object_fromEntries_def)

text \<open>
  C5, as stated: the object has the pairs of \<^verbatim>\<open>configSection\<close> in insertion order. A map
  with the keys \<^verbatim>\<open>b\<close>, \<^verbatim>\<open>1\<close> in this order gives an object whose keys come in the order
  \<^verbatim>\<open>1\<close>, \<^verbatim>\<open>b\<close>: an array-index key moves to the front.
\<close>

theorem configSectionAsObject_reorders:
  "map_option (map fst) (configSection numeric_key_example) = Some [''b'', ''1''] \<and>
   map_option (map fst) (configSectionAsObject numeric_key_example) = Some [''1'', ''b''] \<and>
   configSectionAsObject numeric_key_example \<noteq> configSection numeric_key_example"
  by (simp add: numeric_key_example_def fresh_example_def State_new_def
      configSectionAsObject_def Object_fromEntries_def ownPropertyOrder_def
      isArrayIndex_def arrayIndex_def isDigit_def decimalValue_def)

lemma takeWhile_prefix_class:
  "\<forall>x \<in> set xs. P x \<Longrightarrow> \<forall>y \<in> set ys. \<not> P y \<Longrightarrow> takeWhile P (xs @ ys) = xs"
  by (cases ys) simp_all

lemma dropWhile_prefix_class:
  "\<forall>x \<in> set xs. P x \<Longrightarrow> \<forall>y \<in> set ys. \<not> P y \<Longrightarrow> dropWhile P (xs @ ys) = ys"
  by (cases ys) simp_all

lemma indices_first_ownPropertyOrder:
  "takeWhile (\<lambda>p. isArrayIndex (fst p)) (ownPropertyOrder ps) =
     sort_key (\<lambda>p. decimalValue (fst p)) (filter (\<lambda>p. isArrayIndex (fst p)) ps) \<and>
   dropWhile (\<lambda>p. isArrayIndex (fst p)) (ownPropertyOrder ps) =
     filter (\<lambda>p. \<not> isArrayIndex (fst p)) ps"
  unfolding ownPropertyOrder_def
  by (intro conjI takeWhile_prefix_class dropWhile_prefix_class) simp_all

text \<open>
  C5, amended: \<^verbatim>\<open>configSectionAsObject\<close> returns \<^verbatim>\<open>undefined\<close> exactly when
  \<^verbatim>\<open>configSection\<close> is \<^verbatim>\<open>undefined\<close>, and the empty object for an empty map. Otherwise it
  returns an object with the same key-value pairs as the map, each key once, in this
  order: first the entries whose keys are array indices, in ascending numeric order,
  then the entries whose keys are not array indices, in insertion order. So the
  array-index entries are exactly the leading entries of the object, the other entries
  follow them as the map has them, and a map without array-index keys is returned in
  insertion order.
\<close>

theorem configSectionAsObject_view:
  "(configSectionAsObject s = None \<longleftrightarrow> configSection s = None) \<and>
   (configSection s = Some [] \<longrightarrow> configSectionAsObject s = Some []) \<and>
   (configSection s = Some m \<and> distinct (map fst m) \<longrightarrow>
      (\<exists>obj. configSectionAsObject s = Some obj \<and>
         obj = sort_key (\<lambda>p. decimalValue (fst p)) (filter (\<lambda>p. isArrayIndex (fst p)) m) @
               filter (\<lambda>p. \<not> isArrayIndex (fst p)) m \<and>
         takeWhile (\<lambda>p. isArrayIndex (fst p)) obj = filter (\<lambda>p. isArrayIndex (fst p)) obj \<and>
         dropWhile (\<lambda>p. isArrayIndex (fst p)) obj = filter (\<lambda>p. \<not> isArrayIndex (fst p)) m \<and>
         sorted (map (\<lambda>p. decimalValue (fst p)) (filter (\<lambda>p. isArrayIndex (fst p)) obj)) \<and>
         set obj = set m \<and> distinct (map fst obj) \<and>
         filter (\<lambda>p. \<not> isArrayIndex (fst p)) obj = filter (\<lambda>p. \<not> isArrayIndex (fst p)) m \<and>
         filter (\<lambda>p. isArrayIndex (fst p)) obj =
           sort_key (\<lambda>p. decimalValue (fst p)) (filter (\<lambda>p. isArrayIndex (fst p)) m) \<and>
         ((\<forall>p \<in> set m. \<not> isArrayIndex (fst p)) \<longrightarrow> obj = m)))"
proof (intro conjI impI)
  show "configSectionAsObject s = None \<longleftrightarrow> configSection s = None"
    by (simp add: configSectionAsObject_def split: option.splits)
  show "configSectionAsObject s = Some []" if "configSection s = Some []"
    using that by (simp add: configSectionAsObject_def Object_fromEntries_def ownPropertyOrder_def)
  show "\<exists>obj. configSectionAsObject s = Some obj \<and>
         obj = sort_key (\<lambda>p. decimalValue (fst p)) (filter (\<lambda>p. isArrayIndex (fst p)) m) @
               filter (\<lambda>p. \<not> isArrayIndex (fst p)) m \<and>
         takeWhile (\<lambda>p. isArrayIndex (fst p)) obj = filter (\<lambda>p. isArrayIndex (fst p)) obj \<and>
         dropWhile (\<lambda>p. isArrayIndex (fst p)) obj = filter (\<lambda>p. \<not> isArrayIndex (fst p)) m \<and>
         sorted (map (\<lambda>p. decimalValue (fst p)) (filter (\<lambda>p. isArrayIndex (fst p)) obj)) \<and>
         set obj = set m \<and> distinct (map fst obj) \<and>
         filter (\<lambda>p. \<not> isArrayIndex (fst p)) obj = filter (\<lambda>p. \<not> isArrayIndex (fst p)) m \<and>
         filter (\<lambda>p. isArrayIndex (fst p)) obj =
           sort_key (\<lambda>p. decimalValue (fst p)) (filter (\<lambda>p. isArrayIndex (fst p)) m) \<and>
         ((\<forall>p \<in> set m. \<not> isArrayIndex (fst p)) \<longrightarrow> obj = m)"
    if h: "configSection s = Some m \<and> distinct (map fst m)"
  proof -
    from h have eq: "Object_fromEntries m = ownPropertyOrder m"
      by (simp add: Object_fromEntries_distinct)
    from h have res: "configSectionAsObject s = Some (ownPropertyOrder m)"
      by (simp add: configSectionAsObject_def eq)
    have exact: "ownPropertyOrder m =
        sort_key (\<lambda>p. decimalValue (fst p)) (filter (\<lambda>p. isArrayIndex (fst p)) m) @
        filter (\<lambda>p. \<not> isArrayIndex (fst p)) m"
      by (simp add: ownPropertyOrder_def)
    have first: "takeWhile (\<lambda>p. isArrayIndex (fst p)) (ownPropertyOrder m) =
        filter (\<lambda>p. isArrayIndex (fst p)) (ownPropertyOrder m)"
      by (simp add: indices_first_ownPropertyOrder indices_ownPropertyOrder)
    have rest: "dropWhile (\<lambda>p. isArrayIndex (fst p)) (ownPropertyOrder m) =
        filter (\<lambda>p. \<not> isArrayIndex (fst p)) m"
      by (simp add: indices_first_ownPropertyOrder)
    have asc: "sorted (map (\<lambda>p. decimalValue (fst p))
        (filter (\<lambda>p. isArrayIndex (fst p)) (ownPropertyOrder m)))"
      by (simp add: indices_ownPropertyOrder)
    have dist: "distinct (map fst (ownPropertyOrder m))"
      using h by (simp add: distinct_keys_ownPropertyOrder)
    from res exact first rest asc dist show ?thesis
      using set_ownPropertyOrder [of m] others_ownPropertyOrder [of m]
        indices_ownPropertyOrder [of m] ownPropertyOrder_no_index [of m]
      by blast
  qed
qed

theorem configSectionAsObject_view_witness:
  "configSection mixed_key_example =
     Some [(''b'', ''x''), (''10'', ''y''), (''9'', ''z''), (''a'', ''w'')] \<and>
   distinct (map fst [(''b'', ''x''), (''10'', ''y''), (''9'', ''z''), (''a'', ''w'')]) \<and>
   configSectionAsObject mixed_key_example =
     Some [(''9'', ''z''), (''10'', ''y''), (''b'', ''x''), (''a'', ''w'')] \<and>
   configSection config_example = Some [(''b'', ''x''), (''a'', ''y'')] \<and>
   distinct (map fst [(''b'', ''x''), (''a'', ''y'')]) \<and>
   \<not> isArrayIndex ''b'' \<and> \<not> isArrayIndex ''a'' \<and>
   configSectionAsObject config_example = Some [(''b'', ''x''), (''a'', ''y'')] \<and>
   configSection empty_config_example = Some [] \<and>
   configSectionAsObject empty_config_example = Some [] \<and>
   configSection fresh_example = None \<and>
   configSectionAsObject fresh_example = None"
proof -
  have idx: "isArrayIndex ''10''" "isArrayIndex ''9''" "\<not> isArrayIndex ''b''" "\<not> isArrayIndex ''a''"
    by (simp_all add: isArrayIndex_def arrayIndex_def isDigit_def decimalValue_def)
  have val: "decimalValue ''10'' = 10" "decimalValue ''9'' = 9"
    by (simp_all add: decimalValue_def)
  have mm: "configSection mixed_key_example =
      Some [(''b'', ''x''), (''10'', ''y''), (''9'', ''z''), (''a'', ''w'')]"
    by (simp add: mixed_key_example_def)
  have md: "distinct (map fst [(''b'', ''x''), (''10'', ''y''), (''9'', ''z''), (''a'', ''w'')])"
    by simp
  obtain obj where obj: "configSectionAsObject mixed_key_example = Some obj"
    "obj = sort_key (\<lambda>p. decimalValue (fst p))
             (filter (\<lambda>p. isArrayIndex (fst p))
               [(''b'', ''x''), (''10'', ''y''), (''9'', ''z''), (''a'', ''w'')]) @
           filter (\<lambda>p. \<not> isArrayIndex (fst p))
             [(''b'', ''x''), (''10'', ''y''), (''9'', ''z''), (''a'', ''w'')]"
    using mm md configSectionAsObject_view
      [of mixed_key_example "[(''b'', ''x''), (''10'', ''y''), (''9'', ''z''), (''a'', ''w'')]"]
    by blast
  have mixed: "configSectionAsObject mixed_key_example =
      Some [(''9'', ''z''), (''10'', ''y''), (''b'', ''x''), (''a'', ''w'')]"
    using obj by (simp add: idx val)
  have c: "configSection config_example = Some [(''b'', ''x''), (''a'', ''y'')]"
    by (simp add: config_example_def)
  have cd: "distinct (map fst [(''b'', ''x''), (''a'', ''y'')])"
    by simp
  obtain obj' where obj': "configSectionAsObject config_example = Some obj'"
    "(\<forall>p \<in> set [(''b'', ''x''), (''a'', ''y'')]. \<not> isArrayIndex (fst p)) \<longrightarrow>
       obj' = [(''b'', ''x''), (''a'', ''y'')]"
    using c cd configSectionAsObject_view [of config_example "[(''b'', ''x''), (''a'', ''y'')]"]
    by blast
  have plain: "configSectionAsObject config_example = Some [(''b'', ''x''), (''a'', ''y'')]"
    using obj' by (simp add: idx)
  have e: "configSection empty_config_example = Some []"
    by (simp add: empty_config_example_def)
  have empty: "configSectionAsObject empty_config_example = Some []"
    using e configSectionAsObject_view [of empty_config_example "[]"] by blast
  have f: "configSection fresh_example = None"
    by (simp add: fresh_example_def State_new_def)
  have absent: "configSectionAsObject fresh_example = None"
    using f configSectionAsObject_view [of fresh_example "[]"] by blast
  from mm md mixed c cd idx plain e empty f absent show ?thesis
    by blast
qed

subsection \<open>The iteration state\<close>

text \<open>
  C6. \<^verbatim>\<open>resetIterationState\<close> leaves the only iteration-scoped field, \<^verbatim>\<open>_cmd\<close>, at
  \<^verbatim>\<open>undefined\<close>, whatever it held. Hence, when a classifiable line A is followed by an
  unclassifiable line B, the slot holds A's command after A and is \<^verbatim>\<open>undefined\<close> after B.
\<close>

theorem resetIterationState_clears:
  "iter_cmd (resetIterationState s) = Undefined \<and>
   (classify lineA = Some a \<and> classify lineB = None \<longrightarrow>
      iter_cmd (processLine classify lineA s) = Cmd a \<and>
      iter_cmd (processLine classify lineB (processLine classify lineA s)) = Undefined \<and>
      iter_cmd (processLines classify [lineA, lineB] s) \<noteq> Cmd a)"
  by (simp add: resetIterationState_def processLine_def)

theorem resetIterationState_clears_witness:
  "classify_example ''T1'' = Some ''T1'' \<and> classify_example ''; layer 2'' = None \<and>
   iter_cmd (resetIterationState finalized_example) = Undefined \<and>
   iter_cmd (processLine classify_example ''T1'' fresh_example) = Cmd ''T1'' \<and>
   iter_cmd (processLine classify_example ''; layer 2''
     (processLine classify_example ''T1'' fresh_example)) = Undefined \<and>
   iter_cmd (processLines classify_example [''T1'', ''; layer 2''] fresh_example) \<noteq> Cmd ''T1''"
proof -
  have a: "classify_example ''T1'' = Some ''T1''"
    by (simp add: classify_example_def)
  have b: "classify_example ''; layer 2'' = None"
    by (simp add: classify_example_def)
  show ?thesis
    using a b
      resetIterationState_clears [of fresh_example classify_example "''T1''" "''T1''" "''; layer 2''"]
      resetIterationState_clears [of finalized_example classify_example "''T1''" "''T1''" "''; layer 2''"]
    by simp
qed

text \<open>
  C10. \<^verbatim>\<open>resetIterationState\<close> sets \<^verbatim>\<open>_cmd\<close> to \<^verbatim>\<open>undefined\<close> and changes nothing else:
  every stream-scope field, the attached Info Aggregate and the run configuration are
  as before.
\<close>

theorem resetIterationState_frame:
  "(let s' = resetIterationState s in
      iter_cmd s' = Undefined \<and>
      currentLineNumber s' = currentLineNumber s \<and>
      firstLine s' = firstLine s \<and>
      startPrintLine s' = startPrintLine s \<and>
      onLayerChange2Line s' = onLayerChange2Line s \<and>
      extruderTempLines s' = extruderTempLines s \<and>
      extruderTemps s' = extruderTemps s \<and>
      toolChangeCount s' = toolChangeCount s \<and>
      firstMoveX s' = firstMoveX s \<and>
      firstMoveY s' = firstMoveY s \<and>
      minX s' = minX s \<and>
      maxX s' = maxX s \<and>
      hasPurgeTower s' = hasPurgeTower s \<and>
      configSection s' = configSection s \<and>
      processingHasBeenFinalized s' = processingHasBeenFinalized s \<and>
      usedTools s' = usedTools s \<and>
      gcodeInfo_priv s' = gcodeInfo_priv s \<and>
      get_gcodeInfo s' = get_gcodeInfo s \<and>
      gcodeInfoOrUndefined s' = gcodeInfoOrUndefined s \<and>
      configSectionAsObject s' = configSectionAsObject s \<and>
      kPrinterHasIdex s' = kPrinterHasIdex s \<and>
      kQuickInpsectionOnly s' = kQuickInpsectionOnly s \<and>
      kAllowUnsupportedSlicerVersions s' = kAllowUnsupportedSlicerVersions s \<and>
      onWarning s' = onWarning s \<and>
      s' = s\<lparr>iter_cmd := Undefined\<rparr> \<and>
      s'\<lparr>iter_cmd := iter_cmd s\<rparr> = s)"
  by (simp add: resetIterationState_def get_gcodeInfo_def gcodeInfoOrUndefined_def
      configSectionAsObject_def)

subsection \<open>A new state\<close>

text \<open>
  C7. A newly constructed state holds the run configuration it was given; every mutable
  field has its declared default (line counter \<open>-1\<close>, tool-change count \<open>0\<close>, no used
  tools, not finalized, the X bounds at their sentinels, every optional field and the
  command slot \<^verbatim>\<open>undefined\<close>), and the getter \<^verbatim>\<open>gcodeInfo\<close> fails.
\<close>

theorem State_new_defaults:
  "(let s = State_new idex quick allow warn :: ('key, 'cmd, 'info, 'warn) State in
      kPrinterHasIdex s = idex \<and>
      kQuickInpsectionOnly s = quick \<and>
      kAllowUnsupportedSlicerVersions s = allow \<and>
      onWarning s = warn \<and>
      currentLineNumber s = - 1 \<and>
      firstLine s = None \<and>
      startPrintLine s = None \<and>
      onLayerChange2Line s = None \<and>
      extruderTempLines s = None \<and>
      extruderTemps s = None \<and>
      toolChangeCount s = 0 \<and>
      firstMoveX s = None \<and>
      firstMoveY s = None \<and>
      minX s = Number_MAX_VALUE \<and>
      maxX s = Number_MIN_VALUE \<and>
      hasPurgeTower s = None \<and>
      configSection s = None \<and>
      configSectionAsObject s = None \<and>
      processingHasBeenFinalized s = False \<and>
      usedTools s = [] \<and>
      iter_cmd s = Undefined \<and>
      gcodeInfoOrUndefined s = None \<and>
      get_gcodeInfo s = Inl (InternalError ''gcodeInfo has not been set yet.''))"
  by (simp add: State_new_def get_gcodeInfo_def gcodeInfoOrUndefined_def
      configSectionAsObject_def)

subsection \<open>The used tools\<close>

lemma usedTools_recordToolChanges:
  "usedTools (recordToolChanges ts s) =
   usedTools s @ filter (\<lambda>y. y \<notin> set (usedTools s)) (firstOccurrences ts)"
proof (induction ts arbitrary: s)
  case Nil
  show ?case by simp
next
  case (Cons t ts)
  show ?case
  proof (cases "t \<in> set (usedTools s)")
    case True
    then have "filter (\<lambda>y. y \<notin> set (usedTools s)) (filter (\<lambda>y. y \<noteq> t) (firstOccurrences ts)) =
               filter (\<lambda>y. y \<notin> set (usedTools s)) (firstOccurrences ts)"
      by (auto intro: filter_cong)
    with True show ?thesis by (simp add: Cons.IH recordUsedTool_def)
  next
    case False
    have "filter (\<lambda>y. y \<notin> set (usedTools s)) (filter (\<lambda>y. y \<noteq> t) (firstOccurrences ts)) =
          filter (\<lambda>y. y \<noteq> t \<and> y \<notin> set (usedTools s)) (firstOccurrences ts)"
      by (auto intro: filter_cong)
    with False show ?thesis by (simp add: Cons.IH recordUsedTool_def)
  qed
qed

lemma set_firstOccurrences: "set (firstOccurrences xs) = set xs"
  by (induction xs) auto

lemma distinct_firstOccurrences: "distinct (firstOccurrences xs)"
  by (induction xs) (auto simp: set_firstOccurrences)

text \<open>
  C8. After any sequence of tool changes on a new state, \<^verbatim>\<open>usedTools\<close> holds each tool
  of the sequence exactly once, in the order of first occurrence; the list only grows
  at its end. The tool sequence \<open>0, 1, 0, 2, 1\<close> gives \<open>[0, 1, 2]\<close>.
\<close>

theorem usedTools_first_use_order:
  "(let s0 = State_new idex quick allow warn :: ('key, 'cmd, 'info, 'warn) State in
      usedTools (recordToolChanges ts s0) = firstOccurrences ts \<and>
      distinct (usedTools (recordToolChanges ts s0)) \<and>
      set (usedTools (recordToolChanges ts s0)) = set ts \<and>
      usedTools (recordToolChanges [''0'', ''1'', ''0'', ''2'', ''1''] s0) = [''0'', ''1'', ''2'']) \<and>
   take (length (usedTools s)) (usedTools (recordToolChanges ts s)) = usedTools s"
proof -
  have "usedTools (recordToolChanges ts
          (State_new idex quick allow warn :: ('key, 'cmd, 'info, 'warn) State)) =
        firstOccurrences ts"
    by (simp add: usedTools_recordToolChanges State_new_def)
  then show ?thesis
    by (simp add: distinct_firstOccurrences set_firstOccurrences usedTools_recordToolChanges
        recordUsedTool_def State_new_def)
qed

subsection \<open>Bookmark resolution\<close>

text \<open>
  C9. A second resolution of a key fails with "bookmark already resolved" and the text
  of the first resolution stays in the slot; a key that the registry did not issue
  fails with "bookmark unknown"; a resolution succeeds only while the owning state is
  not finalized.
\<close>

theorem resolve_at_most_once:
  "(resolve s key t1 reg = Inr reg1 \<longrightarrow>
      resolve s key t2 reg1 = Inl BookmarkAlreadyResolved \<and>
      slot_text (reg1 ! key) = t1 \<and> \<not> processingHasBeenFinalized s) \<and>
   (\<not> processingHasBeenFinalized s \<and> length reg \<le> key \<longrightarrow>
      resolve s key t1 reg = Inl BookmarkUnknown) \<and>
   (processingHasBeenFinalized s \<longrightarrow> resolve s key t1 reg = Inl StateAlreadyFinalized)"
  by (auto simp: resolve_def split: if_splits)

theorem resolve_at_most_once_witness:
  "resolve fresh_example 0 ''G28 X'' registry_example =
     Inr [\<lparr>slot_text = ''G28 X'', slot_resolved = True\<rparr>] \<and>
   resolve fresh_example 0 ''G28 Y'' [\<lparr>slot_text = ''G28 X'', slot_resolved = True\<rparr>] =
     Inl BookmarkAlreadyResolved \<and>
   slot_text ([\<lparr>slot_text = ''G28 X'', slot_resolved = True\<rparr>] ! 0) = ''G28 X'' \<and>
   \<not> processingHasBeenFinalized fresh_example \<and> length registry_example \<le> 5 \<and>
   resolve fresh_example 5 ''G28 X'' registry_example = Inl BookmarkUnknown \<and>
   processingHasBeenFinalized finalized_example \<and>
   resolve finalized_example 0 ''G28 X'' registry_example = Inl StateAlreadyFinalized"
proof -
  have r: "resolve fresh_example 0 ''G28 X'' registry_example =
             Inr [\<lparr>slot_text = ''G28 X'', slot_resolved = True\<rparr>]"
    by (simp add: resolve_def registry_example_def createBookmark_def fresh_example_def
        State_new_def)
  have n: "\<not> processingHasBeenFinalized fresh_example"
    by (simp add: fresh_example_def State_new_def)
  have l: "length registry_example \<le> 5"
    by (simp add: registry_example_def createBookmark_def)
  have f: "processingHasBeenFinalized finalized_example"
    by (simp add: finalized_example_def)
  have once:
    "resolve fresh_example 0 ''G28 Y'' [\<lparr>slot_text = ''G28 X'', slot_resolved = True\<rparr>] =
       Inl BookmarkAlreadyResolved \<and>
     slot_text ([\<lparr>slot_text = ''G28 X'', slot_resolved = True\<rparr>] ! 0) = ''G28 X''"
    using r resolve_at_most_once [of fresh_example 0 "''G28 X''" registry_example
        "[\<lparr>slot_text = ''G28 X'', slot_resolved = True\<rparr>]" "''G28 Y''"]
    by blast
  have unknown: "resolve fresh_example 5 ''G28 X'' registry_example = Inl BookmarkUnknown"
    using n l resolve_at_most_once [of fresh_example 5 "''G28 X''" registry_example]
    by blast
  have finalized:
    "resolve finalized_example 0 ''G28 X'' registry_example = Inl StateAlreadyFinalized"
    using f resolve_at_most_once [of finalized_example 0 "''G28 X''" registry_example]
    by blast
  from r once n l unknown f finalized show ?thesis
    by blast
qed

end
